theory Spec2Isabelle
  imports Main "HOL-Library.Char_ord" "HOL-Library.List_Lexorder" "HOL-Library.Sublist"
begin

section \<open>Values of the host language\<close>

text \<open>
  The validator of \<^verbatim>\<open>suite.py\<close> walks decoded configuration data and a schema, both plain
  Python objects. \<open>pyval\<close> is the part of Python's object universe that the JSON, TOML and
  INI decoders produce: \<open>None\<close>, \<open>bool\<close>, \<open>int\<close> (unbounded), \<open>float\<close>, \<open>str\<close>, \<open>list\<close>
  and \<open>dict\<close> with string keys. A dict is an association list in insertion order; lookup
  takes the first entry of a key (a Python dict holds every key once).
  A \<open>str\<close> is a \<open>string\<close> whose characters stand for the code points below 256; TOML's
  date and time objects are not part of the model.

  Floating point numbers are kept abstract: the payload type \<open>'f\<close> and the four
  operations of \<open>host\<close> that the validator can reach (\<open>repr\<close>, \<open>==\<close> between floats,
  \<open>==\<close> between a float and an int, and truthiness) are parameters of every definition.
\<close>

datatype 'f pyval =
    PNone
  | PBool bool
  | PInt int
  | PFloat 'f
  | PStr string
  | PList "'f pyval list"
  | PDict "(string \<times> 'f pyval) list"

record 'f host =
  float_repr :: "'f \<Rightarrow> string"
  float_eq :: "'f \<Rightarrow> 'f \<Rightarrow> bool"
  float_eq_int :: "'f \<Rightarrow> int \<Rightarrow> bool"
  float_bool :: "'f \<Rightarrow> bool"

text \<open>A host whose only float is NaN: it prints as \<open>nan\<close>, equals nothing and is truthy.\<close>

definition nan_host :: "unit host" where
  "nan_host = \<lparr> float_repr = (\<lambda>_. ''nan''), float_eq = (\<lambda>_ _. False),
                float_eq_int = (\<lambda>_ _. False), float_bool = (\<lambda>_. True) \<rparr>"

text \<open>The exceptions that can leave the functions below. \<open>OSError\<close> and \<open>ValueError\<close>
  (with \<open>json.JSONDecodeError\<close>, \<open>UnicodeDecodeError\<close> and \<open>tomllib.TOMLDecodeError\<close>, its
  subclasses) carry their \<open>str()\<close>; \<open>ConfigParserError\<close> is \<open>configparser.Error\<close>, whose
  base class is \<open>Exception\<close>; \<open>ValidationError\<close> is the class of \<^verbatim>\<open>suite.py\<close>.\<close>

datatype exc =
    OSError string
  | ValueError string
  | ConfigParserError string
  | RecursionError string
  | ValidationError string
  | AttributeError
  | TypeError

subsection \<open>Decimal and hexadecimal numerals\<close>

definition digit_char :: "nat \<Rightarrow> char" where
  "digit_char d = ''0123456789abcdef'' ! d"

function nat_str :: "nat \<Rightarrow> string" where
  "nat_str n = (if n < 10 then [digit_char n] else nat_str (n div 10) @ [digit_char (n mod 10)])"
  by pat_completeness auto
termination
  by (relation "measure id") auto

declare nat_str.simps [simp del]

definition int_str :: "int \<Rightarrow> string" where
  "int_str i = (if i < 0 then CHR ''-'' # nat_str (nat (- i)) else nat_str (nat i))"

subsection \<open>\<open>repr\<close> and \<open>str\<close>\<close>

text \<open>\<open>repr\<close> of a \<open>str\<close>: double quotes when the text holds a single quote and no double
  quote, single quotes otherwise; the quote in use and the backslash are escaped, tab,
  newline and carriage return get their letters, and the characters that are not printable
  (below space, 0x7f to 0xa0, 0xad) are written \<^verbatim>\<open>\xhh\<close>.\<close>

definition str_quote :: "string \<Rightarrow> char" where
  "str_quote s = (if CHR 0x27 \<in> set s \<and> CHR 0x22 \<notin> set s then CHR 0x22 else CHR 0x27)"

definition printable :: "char \<Rightarrow> bool" where
  "printable c = (let n = (of_char c :: nat) in
     (32 \<le> n \<and> n < 127) \<or> (160 < n \<and> n \<noteq> 173))"

definition repr_char :: "char \<Rightarrow> char \<Rightarrow> string" where
  "repr_char q c =
    (if c = q \<or> c = CHR 0x5C then [CHR 0x5C, c]
     else if c = CHR 0x09 then [CHR 0x5C, CHR ''t'']
     else if c = CHR 0x0A then [CHR 0x5C, CHR ''n'']
     else if c = CHR 0x0D then [CHR 0x5C, CHR ''r'']
     else if \<not> printable c then
       [CHR 0x5C, CHR ''x'', digit_char (of_char c div 16), digit_char (of_char c mod 16)]
     else [c])"

definition str_repr :: "string \<Rightarrow> string" where
  "str_repr s = (let q = str_quote s in q # concat (map (repr_char q) s) @ [q])"

fun join :: "string \<Rightarrow> string list \<Rightarrow> string" where
  "join sep [] = []"
| "join sep [x] = x"
| "join sep (x # y # ys) = x @ sep @ join sep (y # ys)"

fun py_repr :: "'f host \<Rightarrow> 'f pyval \<Rightarrow> string"
and repr_elems :: "'f host \<Rightarrow> 'f pyval list \<Rightarrow> string list"
and repr_items :: "'f host \<Rightarrow> (string \<times> 'f pyval) list \<Rightarrow> string list" where
  "py_repr h PNone = ''None''"
| "py_repr h (PBool b) = (if b then ''True'' else ''False'')"
| "py_repr h (PInt i) = int_str i"
| "py_repr h (PFloat f) = float_repr h f"
| "py_repr h (PStr s) = str_repr s"
| "py_repr h (PList xs) = ''['' @ join '', '' (repr_elems h xs) @ '']''"
| "py_repr h (PDict kvs) = ''{'' @ join '', '' (repr_items h kvs) @ ''}''"
| "repr_elems h [] = []"
| "repr_elems h (x # xs) = py_repr h x # repr_elems h xs"
| "repr_items h [] = []"
| "repr_items h ((k, v) # kvs) = (str_repr k @ '': '' @ py_repr h v) # repr_items h kvs"

text \<open>\<open>str(x)\<close>, which an f-string field without \<open>!r\<close> uses: the text itself for a
  \<open>str\<close>, the \<open>repr\<close> for every other value of the model.\<close>

definition py_str :: "'f host \<Rightarrow> 'f pyval \<Rightarrow> string" where
  "py_str h v = (case v of PStr s \<Rightarrow> s | _ \<Rightarrow> py_repr h v)"

subsection \<open>Truthiness, equality, membership\<close>

definition py_truthy :: "'f host \<Rightarrow> 'f pyval \<Rightarrow> bool" where
  "py_truthy h v =
    (case v of
       PNone \<Rightarrow> False
     | PBool b \<Rightarrow> b
     | PInt i \<Rightarrow> i \<noteq> 0
     | PFloat f \<Rightarrow> float_bool h f
     | PStr s \<Rightarrow> s \<noteq> []
     | PList xs \<Rightarrow> xs \<noteq> []
     | PDict kvs \<Rightarrow> kvs \<noteq> [])"

definition bool_int :: "bool \<Rightarrow> int" where
  "bool_int b = (if b then 1 else 0)"

text \<open>\<open>a == b\<close>. \<open>bool\<close> is a subclass of \<open>int\<close>, so \<open>True == 1\<close> and \<open>False == 0\<close>; lists are
  equal when they have the same length and equal elements, dicts when they have the same
  number of entries and every key of the left one is a key of the right one with an equal
  value. Object identity, which \<open>in\<close> tries before \<open>==\<close>, is not modelled.\<close>

fun py_eq :: "'f host \<Rightarrow> 'f pyval \<Rightarrow> 'f pyval \<Rightarrow> bool"
and eq_elems :: "'f host \<Rightarrow> 'f pyval list \<Rightarrow> 'f pyval list \<Rightarrow> bool"
and eq_items :: "'f host \<Rightarrow> (string \<times> 'f pyval) list \<Rightarrow> (string \<times> 'f pyval) list \<Rightarrow> bool" where
  "py_eq h PNone b = (b = PNone)"
| "py_eq h (PBool x) b =
    (case b of PBool y \<Rightarrow> x = y | PInt j \<Rightarrow> bool_int x = j
     | PFloat g \<Rightarrow> float_eq_int h g (bool_int x) | _ \<Rightarrow> False)"
| "py_eq h (PInt i) b =
    (case b of PBool y \<Rightarrow> i = bool_int y | PInt j \<Rightarrow> i = j
     | PFloat g \<Rightarrow> float_eq_int h g i | _ \<Rightarrow> False)"
| "py_eq h (PFloat f) b =
    (case b of PBool y \<Rightarrow> float_eq_int h f (bool_int y) | PInt j \<Rightarrow> float_eq_int h f j
     | PFloat g \<Rightarrow> float_eq h f g | _ \<Rightarrow> False)"
| "py_eq h (PStr s) b = (b = PStr s)"
| "py_eq h (PList xs) b = (case b of PList ys \<Rightarrow> eq_elems h xs ys | _ \<Rightarrow> False)"
| "py_eq h (PDict kvs) b =
    (case b of PDict kws \<Rightarrow> length kvs = length kws \<and> eq_items h kvs kws | _ \<Rightarrow> False)"
| "eq_elems h [] ys = (ys = [])"
| "eq_elems h (x # xs) ys = (case ys of [] \<Rightarrow> False | y # ys' \<Rightarrow> py_eq h x y \<and> eq_elems h xs ys')"
| "eq_items h [] kws = True"
| "eq_items h ((k, v) # kvs) kws =
    ((case map_of kws k of None \<Rightarrow> False | Some w \<Rightarrow> py_eq h v w) \<and> eq_items h kvs kws)"

text \<open>\<open>dict.get(key, default)\<close>, \<open>key in dict\<close> for a key that may be any value (a list or
  a dict is unhashable), iteration (\<open>for x in v\<close>) and \<open>x in v\<close>.\<close>

definition dict_get :: "(string \<times> 'f pyval) list \<Rightarrow> string \<Rightarrow> 'f pyval \<Rightarrow> 'f pyval" where
  "dict_get d k dflt = (case map_of d k of None \<Rightarrow> dflt | Some v \<Rightarrow> v)"

definition dict_keys :: "(string \<times> 'f pyval) list \<Rightarrow> string list" where
  "dict_keys d = map fst d"

definition key_in :: "'f pyval \<Rightarrow> (string \<times> 'f pyval) list \<Rightarrow> exc + bool" where
  "key_in key d =
    (case key of
       PList _ \<Rightarrow> Inl TypeError
     | PDict _ \<Rightarrow> Inl TypeError
     | PStr s \<Rightarrow> Inr (s \<in> set (dict_keys d))
     | _ \<Rightarrow> Inr False)"

definition py_iter :: "'f pyval \<Rightarrow> exc + 'f pyval list" where
  "py_iter v =
    (case v of
       PList xs \<Rightarrow> Inr xs
     | PStr s \<Rightarrow> Inr (map (\<lambda>c. PStr [c]) s)
     | PDict d \<Rightarrow> Inr (map PStr (dict_keys d))
     | _ \<Rightarrow> Inl TypeError)"

definition py_in :: "'f host \<Rightarrow> 'f pyval \<Rightarrow> 'f pyval \<Rightarrow> exc + bool" where
  "py_in h x c =
    (case c of
       PList ys \<Rightarrow> Inr (list_ex (\<lambda>y. py_eq h y x) ys)
     | PDict d \<Rightarrow> key_in x d
     | PStr s \<Rightarrow> (case x of PStr t \<Rightarrow> Inr (sublist t s) | _ \<Rightarrow> Inl TypeError)
     | _ \<Rightarrow> Inl TypeError)"

text \<open>A text between single quotes, as the messages of the validator hold it.\<close>

definition quoted :: "string \<Rightarrow> string" where
  "quoted s = CHR 0x27 # s @ [CHR 0x27]"

section \<open>The structural validator\<close>

subsection \<open>\<open>_check_type\<close>\<close>

definition is_str :: "'f pyval \<Rightarrow> bool" where
  "is_str x = (case x of PStr _ \<Rightarrow> True | _ \<Rightarrow> False)"

definition is_bool :: "'f pyval \<Rightarrow> bool" where
  "is_bool x = (case x of PBool _ \<Rightarrow> True | _ \<Rightarrow> False)"

text \<open>\<open>isinstance(x, int)\<close> holds of a \<open>bool\<close> too.\<close>

definition is_int :: "'f pyval \<Rightarrow> bool" where
  "is_int x = (case x of PInt _ \<Rightarrow> True | PBool _ \<Rightarrow> True | _ \<Rightarrow> False)"

definition is_float :: "'f pyval \<Rightarrow> bool" where
  "is_float x = (case x of PFloat _ \<Rightarrow> True | _ \<Rightarrow> False)"

definition is_sequence :: "'f pyval \<Rightarrow> bool" where
  "is_sequence x = (case x of PList _ \<Rightarrow> True | PStr _ \<Rightarrow> True | _ \<Rightarrow> False)"

definition is_mapping :: "'f pyval \<Rightarrow> bool" where
  "is_mapping x = (case x of PDict _ \<Rightarrow> True | _ \<Rightarrow> False)"

definition is_array :: "'f pyval \<Rightarrow> bool" where
  "is_array x = (is_sequence x \<and> \<not> is_str x)"

definition checkers :: "(string \<times> ('f pyval \<Rightarrow> bool)) list" where
  "checkers =
    [(''string'', \<lambda>x. is_str x),
     (''number'', \<lambda>x. (is_int x \<or> is_float x) \<and> \<not> is_bool x),
     (''integer'', \<lambda>x. is_int x \<and> \<not> is_bool x),
     (''boolean'', \<lambda>x. is_bool x),
     (''array'', \<lambda>x. is_array x),
     (''object'', \<lambda>x. is_mapping x),
     (''null'', \<lambda>x. x = PNone)]"

text \<open>\<open>checkers.get(expected)\<close> hashes \<open>expected\<close>: a list or a dict raises \<open>TypeError\<close>; a
  value that is not a \<open>str\<close> equals no key.\<close>

definition checkers_get :: "'f pyval \<Rightarrow> exc + ('f pyval \<Rightarrow> bool) option" where
  "checkers_get expected =
    (case expected of
       PList _ \<Rightarrow> Inl TypeError
     | PDict _ \<Rightarrow> Inl TypeError
     | PStr t \<Rightarrow> Inr (map_of checkers t)
     | _ \<Rightarrow> Inr None)"

definition check_type :: "'f host \<Rightarrow> 'f pyval \<Rightarrow> 'f pyval \<Rightarrow> exc + string option" where
  "check_type h val expected =
    (case checkers_get expected of
       Inl e \<Rightarrow> Inl e
     | Inr None \<Rightarrow> Inr (Some (''Unknown schema type '' @ quoted (py_str h expected)))
     | Inr (Some checker) \<Rightarrow>
         if \<not> checker val then
           Inr (Some (''Expected type '' @ quoted (py_str h expected)
                      @ '' but received value '' @ py_repr h val))
         else Inr None)"

subsection \<open>\<open>_validate_schema\<close> and \<open>_validate_object\<close>\<close>

text \<open>The \<open>for\<close> loops of the source append to the list \<open>errors\<close>; each loop is a function
  that takes the list as it stands and returns it as the loop leaves it. An exception ends
  every loop and every caller, so the results are sums with the exception on the left.\<close>

fun required_loop ::
  "'f host \<Rightarrow> (string \<times> 'f pyval) list \<Rightarrow> string \<Rightarrow> 'f pyval list \<Rightarrow> string list
    \<Rightarrow> exc + string list" where
  "required_loop h data path [] errors = Inr errors"
| "required_loop h data path (key # keys) errors =
    (case key_in key data of
       Inl e \<Rightarrow> Inl e
     | Inr present \<Rightarrow>
         required_loop h data path keys
           (if \<not> present
            then errors @ [path @ '': missing required key '' @ quoted (py_str h key)]
            else errors))"

fun unexpected_loop :: "string \<Rightarrow> string list \<Rightarrow> string list \<Rightarrow> string list" where
  "unexpected_loop path [] errors = errors"
| "unexpected_loop path (key # keys) errors =
    unexpected_loop path keys (errors @ [path @ '': unexpected key '' @ quoted key])"

text \<open>\<open>validate_schema h data schema path\<close> is \<open>_validate_schema(data, schema, path=path)\<close>.
  \<open>schema.get\<close> needs a dict; \<open>data[key]\<close> after \<open>key in data\<close> is the lookup \<open>map_of data key\<close>;
  the test \<open>isinstance(data, Mapping)\<close> (and the one for a sequence that is no \<open>str\<close>) is the
  case distinction on \<open>data\<close>.\<close>

function (sequential)
  validate_schema :: "'f host \<Rightarrow> 'f pyval \<Rightarrow> 'f pyval \<Rightarrow> string \<Rightarrow> exc + string list"
and validate_object ::
  "'f host \<Rightarrow> (string \<times> 'f pyval) list \<Rightarrow> (string \<times> 'f pyval) list \<Rightarrow> string
    \<Rightarrow> exc + string list"
and properties_loop ::
  "'f host \<Rightarrow> (string \<times> 'f pyval) list \<Rightarrow> string \<Rightarrow> (string \<times> 'f pyval) list
    \<Rightarrow> string list \<Rightarrow> exc + string list"
and items_loop ::
  "'f host \<Rightarrow> 'f pyval \<Rightarrow> string \<Rightarrow> nat \<Rightarrow> 'f pyval list \<Rightarrow> string list
    \<Rightarrow> exc + string list"
where
  "validate_schema h data schema path =
    (case schema of
       PDict sch \<Rightarrow>
        (let errors = [];
             schema_type = dict_get sch ''type'' PNone
         in case (if py_truthy h schema_type then check_type h data schema_type
                  else Inr None) of
              Inl e \<Rightarrow> Inl e
            | Inr (Some type_error) \<Rightarrow> Inr (errors @ [path @ '': '' @ type_error])
            | Inr None \<Rightarrow>
               (let enum_values = dict_get sch ''enum'' PNone
                in case (if enum_values \<noteq> PNone then py_in h data enum_values
                         else Inr True) of
                     Inl e \<Rightarrow> Inl e
                   | Inr member \<Rightarrow>
                      (let errors =
                         (if \<not> member
                          then errors @ [path @ '': value '' @ py_repr h data
                                         @ '' is not in allowed set ''
                                         @ py_repr h enum_values]
                          else errors)
                       in case data of
                            PDict d \<Rightarrow>
                              if schema_type = PStr ''object'' then
                                (case validate_object h d sch path of
                                   Inl e \<Rightarrow> Inl e
                                 | Inr es \<Rightarrow> Inr (errors @ es))
                              else Inr errors
                          | PList xs \<Rightarrow>
                              if schema_type = PStr ''array'' then
                                (let item_schema = dict_get sch ''items'' PNone
                                 in if py_truthy h item_schema
                                    then items_loop h item_schema path 0 xs errors
                                    else Inr errors)
                              else Inr errors
                          | _ \<Rightarrow> Inr errors)))
     | _ \<Rightarrow> Inl AttributeError)"
| "validate_object h data sch path =
    (let errors = [];
         required = dict_get sch ''required'' (PList [])
     in case py_iter required of
          Inl e \<Rightarrow> Inl e
        | Inr keys \<Rightarrow>
           (case required_loop h data path keys errors of
              Inl e \<Rightarrow> Inl e
            | Inr errors \<Rightarrow>
               (case dict_get sch ''properties'' (PDict []) of
                  PDict properties \<Rightarrow>
                   (case properties_loop h data path properties errors of
                      Inl e \<Rightarrow> Inl e
                    | Inr errors \<Rightarrow>
                       (let additional = dict_get sch ''additionalProperties'' (PBool True)
                        in if additional = PBool False then
                             (let allowed_keys = set (dict_keys properties);
                                  unexpected =
                                    sort (filter (\<lambda>k. k \<notin> allowed_keys) (dict_keys data))
                              in Inr (unexpected_loop path unexpected errors))
                           else Inr errors))
                | _ \<Rightarrow> Inl AttributeError)))"
| "properties_loop h data path [] errors = Inr errors"
| "properties_loop h data path ((key, subschema) # rest) errors =
    (case map_of data key of
       Some v \<Rightarrow>
        (case validate_schema h v subschema (path @ ''.'' @ key) of
           Inl e \<Rightarrow> Inl e
         | Inr es \<Rightarrow> properties_loop h data path rest (errors @ es))
     | None \<Rightarrow> properties_loop h data path rest errors)"
| "items_loop h item_schema path index [] errors = Inr errors"
| "items_loop h item_schema path index (val # rest) errors =
    (case validate_schema h val item_schema (path @ ''['' @ nat_str index @ '']'') of
       Inl e \<Rightarrow> Inl e
     | Inr es \<Rightarrow> items_loop h item_schema path (Suc index) rest (errors @ es))"
  by pat_completeness auto
termination
  apply (relation "measures
     [\<lambda>x. case x of
         Inl (Inl (h, data, schema, path)) \<Rightarrow> size data
       | Inl (Inr (h, d, sch, path)) \<Rightarrow> size (PDict d)
       | Inr (Inl (h, d, path, props, errors)) \<Rightarrow> size (PDict d)
       | Inr (Inr (h, item_schema, path, index, xs, errors)) \<Rightarrow> size (PList xs),
      \<lambda>x. case x of
         Inl (Inl _) \<Rightarrow> 2
       | Inl (Inr _) \<Rightarrow> 1
       | Inr _ \<Rightarrow> 0,
      \<lambda>x. case x of
         Inr (Inl (h, d, path, props, errors)) \<Rightarrow> length props
       | _ \<Rightarrow> 0]")
  apply auto
  subgoal for data key v
    by (induction data) (auto split: if_splits)
  done

declare validate_schema.simps [simp del] validate_object.simps [simp del]

section \<open>The facade\<close>

text \<open>\<open>ValidationResult\<close> is the dataclass of the source. A \<open>Path\<close> is known by its \<open>str()\<close>
  and its \<open>suffix\<close>; \<open>pathlib\<close> computes both and is not modelled further.\<close>

record ValidationResult =
  valid :: bool
  errors :: "string list"
  warnings :: "string list"

record Path =
  path_str :: string
  path_suffix :: string

text \<open>The file system, as \<open>validate\<close> reads it: whether a path exists, and what opening and
  reading a file gives, either the \<open>str()\<close> of an \<open>OSError\<close> or the bytes of the file.\<close>

record filesystem =
  path_exists :: "string \<Rightarrow> bool"
  open_file :: "string \<Rightarrow> string + string"

text \<open>The decoders of the standard library, functions of the bytes read: \<open>json.load\<close>,
  \<open>tomllib.load\<close>, and \<open>ConfigParser.read_file\<close>, which gives the sections in order, each
  with what \<open>dict(parser[section])\<close> gives (interpolation can raise there).\<close>

record 'f decoders =
  json_load :: "string \<Rightarrow> exc + 'f pyval"
  toml_load :: "string \<Rightarrow> exc + 'f pyval"
  ini_read_file :: "string \<Rightarrow> exc + (string \<times> (exc + (string \<times> string) list)) list"

definition SUPPORTED_FORMATS :: "string set" where
  "SUPPORTED_FORMATS = {''.json'', ''.toml'', ''.ini''}"

text \<open>\<open>str.lower\<close> on the code points below 256.\<close>

definition lower_char :: "char \<Rightarrow> char" where
  "lower_char c = (let n = (of_char c :: nat) in
     if (65 \<le> n \<and> n \<le> 90) \<or> (192 \<le> n \<and> n \<le> 222 \<and> n \<noteq> 215) then char_of (n + 32) else c)"

definition lower :: "string \<Rightarrow> string" where
  "lower s = map lower_char s"

text \<open>The dict comprehension of \<open>_load_config\<close> over \<open>parser.sections()\<close>.\<close>

fun ini_sections ::
  "(string \<times> (exc + (string \<times> string) list)) list \<Rightarrow> (string \<times> 'f pyval) list
    \<Rightarrow> exc + 'f pyval" where
  "ini_sections [] acc = Inr (PDict acc)"
| "ini_sections ((section, items) # rest) acc =
    (case items of
       Inl e \<Rightarrow> Inl e
     | Inr kvs \<Rightarrow>
         ini_sections rest (acc @ [(section, PDict (map (\<lambda>(k, v). (k, PStr v)) kvs))]))"

definition load_config :: "'f decoders \<Rightarrow> filesystem \<Rightarrow> Path \<Rightarrow> exc + 'f pyval" where
  "load_config dec fs path =
    (let suffix = lower (path_suffix path) in
     if suffix = ''.json'' then
       (case open_file fs (path_str path) of
          Inl m \<Rightarrow> Inl (OSError m)
        | Inr fh \<Rightarrow> json_load dec fh)
     else if suffix = ''.toml'' then
       (case open_file fs (path_str path) of
          Inl m \<Rightarrow> Inl (OSError m)
        | Inr fh \<Rightarrow> toml_load dec fh)
     else if suffix = ''.ini'' then
       (case open_file fs (path_str path) of
          Inl m \<Rightarrow> Inl (OSError m)
        | Inr fh \<Rightarrow>
           (case ini_read_file dec fh of
              Inl e \<Rightarrow> Inl e
            | Inr parser \<Rightarrow> ini_sections parser []))
     else Inl (ValidationError (''Unsupported format: '' @ path_suffix path)))"

text \<open>\<open>validate h dec fs strict path schema\<close> is \<open>ConfigValidationSuite(strict=strict)
  .validate(path, schema)\<close>; a schema that is left out is \<open>PNone\<close>. The lists \<open>errors\<close>
  and \<open>warnings\<close> of the source are \<open>errs\<close> and \<open>warns\<close> here, the fields of the result
  having taken their names. The clause \<open>except (OSError, ValueError)\<close> catches these two
  classes and lets every other one pass.\<close>

definition validate ::
  "'f host \<Rightarrow> 'f decoders \<Rightarrow> filesystem \<Rightarrow> bool \<Rightarrow> Path \<Rightarrow> 'f pyval \<Rightarrow> exc + ValidationResult"
where
  "validate h dec fs strict path schema =
    (let errs = []; warns = [] in
     if \<not> path_exists fs (path_str path) then
       (let msg = ''Config file '' @ quoted (path_str path) @ '' does not exist.'';
            errs = (if strict then errs @ [msg] else errs);
            warns = (if strict then warns else warns @ [msg])
        in Inr \<lparr>valid = (errs = []), errors = errs, warnings = warns\<rparr>)
     else if lower (path_suffix path) \<notin> SUPPORTED_FORMATS then
       (let errs = errs @ [''Unsupported config format '' @ quoted (path_suffix path)
                           @ ''. Supported formats: ''
                           @ join '', '' (sorted_list_of_set SUPPORTED_FORMATS) @ ''.'']
        in Inr \<lparr>valid = False, errors = errs, warnings = warns\<rparr>)
     else
       (case load_config dec fs path of
          Inl (OSError m) \<Rightarrow>
            Inr \<lparr>valid = False, errors = errs @ [''Failed to load config: '' @ m],
                 warnings = warns\<rparr>
        | Inl (ValueError m) \<Rightarrow>
            Inr \<lparr>valid = False, errors = errs @ [''Failed to load config: '' @ m],
                 warnings = warns\<rparr>
        | Inl e \<Rightarrow> Inl e
        | Inr data \<Rightarrow>
            if py_truthy h schema then
              (case validate_schema h data schema ''$'' of
                 Inl e \<Rightarrow> Inl e
               | Inr schema_errors \<Rightarrow>
                   (let errs = errs @ schema_errors
                    in Inr \<lparr>valid = (errs = []), errors = errs, warnings = warns\<rparr>))
            else Inr \<lparr>valid = (errs = []), errors = errs, warnings = warns\<rparr>))"

section \<open>The documented behaviour, restated\<close>

text \<open>The definitions of this section follow the words of the specification, not the code:
  they say which messages a node gives and in which order, as lists built with \<open>map\<close>,
  \<open>filter\<close> and \<open>concat\<close>. The theorems below compare them with the loops above.
  \<open>errors_of\<close> reads the list out of a result (a run that raised has none).\<close>

definition errors_of :: "exc + string list \<Rightarrow> string list" where
  "errors_of r = (case r of Inl e \<Rightarrow> [] | Inr es \<Rightarrow> es)"

text \<open>Step 1: the message of the type check, when the node declares a type and the check
  gives one.\<close>

definition spec_type_failure ::
  "'f host \<Rightarrow> 'f pyval \<Rightarrow> (string \<times> 'f pyval) list \<Rightarrow> string option" where
  "spec_type_failure h data sch =
    (let t = dict_get sch ''type'' PNone
     in if py_truthy h t
        then (case check_type h data t of Inr (Some m) \<Rightarrow> Some m | _ \<Rightarrow> None)
        else None)"

text \<open>Step 2: the enum failure.\<close>

definition spec_enum_errors ::
  "'f host \<Rightarrow> 'f pyval \<Rightarrow> (string \<times> 'f pyval) list \<Rightarrow> string \<Rightarrow> string list" where
  "spec_enum_errors h data sch path =
    (let allowed = dict_get sch ''enum'' PNone
     in if allowed \<noteq> PNone \<and> py_in h data allowed = Inr False
        then [path @ '': value '' @ py_repr h data @ '' is not in allowed set ''
              @ py_repr h allowed]
        else [])"

text \<open>Step 3: the missing required keys in the order of \<open>required\<close>, the errors of the
  properties that the value has in the order of \<open>properties\<close>, the unexpected keys sorted.\<close>

definition spec_required_errors ::
  "'f host \<Rightarrow> (string \<times> 'f pyval) list \<Rightarrow> (string \<times> 'f pyval) list \<Rightarrow> string \<Rightarrow> string list"
where
  "spec_required_errors h d sch path =
    map (\<lambda>name. path @ '': missing required key '' @ quoted (py_str h name))
      (filter (\<lambda>name. key_in name d = Inr False)
         (case py_iter (dict_get sch ''required'' (PList [])) of
            Inl e \<Rightarrow> []
          | Inr names \<Rightarrow> names))"

definition spec_property_errors ::
  "'f host \<Rightarrow> (string \<times> 'f pyval) list \<Rightarrow> (string \<times> 'f pyval) list \<Rightarrow> string \<Rightarrow> string list"
where
  "spec_property_errors h d sch path =
    concat (map (\<lambda>(name, subschema).
                   case map_of d name of
                     None \<Rightarrow> []
                   | Some v \<Rightarrow> errors_of (validate_schema h v subschema (path @ ''.'' @ name)))
              (case dict_get sch ''properties'' (PDict []) of
                 PDict props \<Rightarrow> props
               | _ \<Rightarrow> []))"

definition spec_unexpected_errors ::
  "(string \<times> 'f pyval) list \<Rightarrow> (string \<times> 'f pyval) list \<Rightarrow> string \<Rightarrow> string list" where
  "spec_unexpected_errors d sch path =
    (if dict_get sch ''additionalProperties'' (PBool True) = PBool False
     then map (\<lambda>name. path @ '': unexpected key '' @ quoted name)
            (sort (filter (\<lambda>name. name \<notin> set (case dict_get sch ''properties'' (PDict []) of
                                                   PDict props \<Rightarrow> dict_keys props
                                                 | _ \<Rightarrow> []))
                     (dict_keys d)))
     else [])"

text \<open>Step 4: the errors of the elements in the order of their indices, from 0.\<close>

definition spec_item_errors ::
  "'f host \<Rightarrow> 'f pyval list \<Rightarrow> (string \<times> 'f pyval) list \<Rightarrow> string \<Rightarrow> string list" where
  "spec_item_errors h xs sch path =
    (let item_schema = dict_get sch ''items'' PNone
     in if py_truthy h item_schema
        then concat (map (\<lambda>(index, v).
                            errors_of (validate_schema h v item_schema
                                         (path @ ''['' @ nat_str index @ '']'')))
                       (enumerate 0 xs))
        else [])"

text \<open>Step 5: the concatenation.\<close>

definition spec_errors ::
  "'f host \<Rightarrow> 'f pyval \<Rightarrow> (string \<times> 'f pyval) list \<Rightarrow> string \<Rightarrow> string list" where
  "spec_errors h data sch path =
    (case spec_type_failure h data sch of
       Some m \<Rightarrow> [path @ '': '' @ m]
     | None \<Rightarrow>
         spec_enum_errors h data sch path
         @ (case data of
              PDict d \<Rightarrow>
                if dict_get sch ''type'' PNone = PStr ''object''
                then spec_required_errors h d sch path
                     @ spec_property_errors h d sch path
                     @ spec_unexpected_errors d sch path
                else []
            | PList xs \<Rightarrow>
                if dict_get sch ''type'' PNone = PStr ''array''
                then spec_item_errors h xs sch path
                else []
            | _ \<Rightarrow> []))"




section \<open>Two file systems, decoders and a schema to run the definitions on\<close>

text \<open>\<open>demo_fs\<close> holds an INI file without a section header and a JSON file; \<open>demo_fs2\<close>
  holds the same JSON file and differs elsewhere. \<open>demo_decoders\<close> gives, for these bytes,
  what the standard library gives: \<open>configparser\<close> raises \<open>MissingSectionHeaderError\<close>, a
  subclass of \<open>configparser.Error\<close>, on the INI text, and \<open>json.load\<close> decodes the JSON text.\<close>

definition demo_fs :: filesystem where
  "demo_fs = \<lparr> path_exists = (\<lambda>p. p = ''settings.ini'' \<or> p = ''app.json''),
               open_file = (\<lambda>p. if p = ''settings.ini'' then Inr ''key = value''
                                  else if p = ''app.json'' then Inr ''{\"debug\": true}''
                                  else Inl ''[Errno 2] No such file or directory'') \<rparr>"

definition demo_fs2 :: filesystem where
  "demo_fs2 = \<lparr> path_exists = (\<lambda>p. p = ''app.json'' \<or> p = ''other.toml''),
                open_file = (\<lambda>p. if p = ''app.json'' then Inr ''{\"debug\": true}''
                                   else Inl ''[Errno 13] Permission denied'') \<rparr>"

definition demo_decoders :: "unit decoders" where
  "demo_decoders =
     \<lparr> json_load = (\<lambda>b. if b = ''{\"debug\": true}'' then Inr (PDict [(''debug'', PBool True)])
                         else Inl (ValueError ''Expecting value: line 1 column 1 (char 0)'')),
       toml_load = (\<lambda>b. Inl (ValueError ''Invalid statement (at line 1, column 1)'')),
       ini_read_file = (\<lambda>b. if b = ''key = value''
                              then Inl (ConfigParserError ''File contains no section headers.'')
                              else Inr []) \<rparr>"

definition demo_ini :: Path where
  "demo_ini = \<lparr>path_str = ''settings.ini'', path_suffix = ''.ini''\<rparr>"

definition demo_json :: Path where
  "demo_json = \<lparr>path_str = ''app.json'', path_suffix = ''.json''\<rparr>"

definition demo_absent :: Path where
  "demo_absent = \<lparr>path_str = ''absent.json'', path_suffix = ''.json''\<rparr>"

text \<open>A value and a schema node that give one error of every kind an object can give:
  \<open>{"z": 1, "a": "x", "b": 2}\<close> against \<open>{type: "object", enum: [1], required: ["name", "a",
  "port"], properties: {a: {type: "integer"}, c: {}}, additionalProperties: false}\<close>.\<close>

definition demo_data :: "unit pyval" where
  "demo_data = PDict [(''z'', PInt 1), (''a'', PStr ''x''), (''b'', PInt 2)]"

definition demo_schema :: "(string \<times> unit pyval) list" where
  "demo_schema =
     [(''type'', PStr ''object''),
      (''enum'', PList [PInt 1]),
      (''required'', PList [PStr ''name'', PStr ''a'', PStr ''port'']),
      (''properties'', PDict [(''a'', PDict [(''type'', PStr ''integer'')]), (''c'', PDict [])]),
      (''additionalProperties'', PBool False)]"



section \<open>Evaluation\<close>

lemma checkers_simps:
  "map_of checkers ''string'' = Some (\<lambda>x::'f pyval. is_str x)"
  "map_of checkers ''number'' = Some (\<lambda>x::'f pyval. (is_int x \<or> is_float x) \<and> \<not> is_bool x)"
  "map_of checkers ''integer'' = Some (\<lambda>x::'f pyval. is_int x \<and> \<not> is_bool x)"
  "map_of checkers ''boolean'' = Some (\<lambda>x::'f pyval. is_bool x)"
  "map_of checkers ''array'' = Some (\<lambda>x::'f pyval. is_array x)"
  "map_of checkers ''object'' = Some (\<lambda>x::'f pyval. is_mapping x)"
  "map_of checkers ''null'' = Some (\<lambda>x::'f pyval. x = PNone)"
  by (simp_all add: checkers_def)

lemma checkers_keys:
  "(map_of (checkers :: (string \<times> ('f pyval \<Rightarrow> bool)) list) t = None) =
   (t \<notin> {''string'', ''number'', ''integer'', ''boolean'', ''array'', ''object'', ''null''})"
  by (simp add: checkers_def)


text \<open>The equations that run the validator on a value and a schema that are written out.\<close>

lemmas run_simps =
  validate_schema.simps validate_object.simps dict_get_def dict_keys_def py_truthy_def
  check_type_def checkers_get_def checkers_simps is_str_def is_bool_def is_int_def is_float_def
  is_sequence_def is_mapping_def is_array_def py_iter_def key_in_def py_in_def py_str_def
  quoted_def str_repr_def str_quote_def repr_char_def printable_def Let_def int_str_def
  nat_str.simps digit_char_def bool_int_def

lemmas facade_simps =
  validate_def load_config_def SUPPORTED_FORMATS_def lower_def lower_char_def
  demo_fs_def demo_fs2_def demo_decoders_def demo_ini_def demo_json_def demo_absent_def

section \<open>The type checks\<close>

text \<open>
  C7. A boolean fails the type checks \<open>integer\<close> and \<open>number\<close>, with the type-mismatch
  message that names \<open>True\<close> or \<open>False\<close>, although \<open>isinstance(True, int)\<close> holds; the type
  check \<open>boolean\<close> passes exactly for the booleans.
\<close>

theorem boolean_is_not_a_number:
  "check_type h (PBool b) (PStr ''integer'')
     = Inr (Some (''Expected type 'integer' but received value ''
                  @ (if b then ''True'' else ''False'')))
   \<and> check_type h (PBool b) (PStr ''number'')
     = Inr (Some (''Expected type 'number' but received value ''
                  @ (if b then ''True'' else ''False'')))
   \<and> (check_type h v (PStr ''boolean'') = Inr None) = (\<exists>c. v = PBool c)"
  by (cases v) (simp_all add: check_type_def checkers_get_def checkers_simps is_int_def
        is_bool_def is_float_def py_str_def quoted_def)

text \<open>What \<open>_validate_schema\<close> does with the message of \<open>_check_type\<close>: it is the only error
  of the node, whatever else the schema node holds.\<close>

lemma type_check_failure:
  assumes "map_of sch ''type'' = Some (PStr t)"
    and "check_type h data (PStr t) = Inr (Some m)"
    and "t \<noteq> []"
  shows "validate_schema h data (PDict sch) path = Inr [path @ '': '' @ m]"
  using assms by (simp add: validate_schema.simps dict_get_def py_truthy_def)



text \<open>
  C6, as the claim states it, fails: the empty string is a type string that is none of
  the seven, and \<open>if schema_type:\<close> takes it for no type at all. The node \<open>{type: ""}\<close>
  gives no error, and with \<open>enum\<close> beside it the enum check runs.
\<close>

theorem empty_type_is_skipped:
  "'''' \<notin> {''string'', ''number'', ''integer'', ''boolean'', ''array'', ''object'', ''null''}
   \<and> validate_schema nan_host (PInt 1) (PDict [(''type'', PStr '''')]) ''$'' = Inr []
   \<and> validate_schema nan_host (PInt 1) (PDict [(''type'', PStr ''''), (''enum'', PList [PInt 2])])
        ''$'' = Inr [''$: value 1 is not in allowed set [2]'']"
  by (simp add: run_simps)

text \<open>
  C6, amended. For every schema node whose declared type is a non-empty string that is
  none of the seven recognised types, the node gives the single error
  \<open><path>: Unknown schema type '<type>'\<close>, and nothing else of the node is checked (\<open>sch\<close> is
  any schema node with that type, \<open>data\<close> any value).
\<close>

theorem unknown_type_stops_the_node:
  fixes h :: "'f host"
  assumes "map_of sch ''type'' = Some (PStr t)"
    and "t \<noteq> []"
    and "t \<notin> {''string'', ''number'', ''integer'', ''boolean'', ''array'', ''object'', ''null''}"
  shows "validate_schema h data (PDict sch) path =
           Inr [path @ '': Unknown schema type '' @ quoted t]"
proof -
  from assms(3) have "map_of (checkers :: (string \<times> ('f pyval \<Rightarrow> bool)) list) t = None"
    by (simp add: checkers_keys)
  then have "check_type h data (PStr t) = Inr (Some (''Unknown schema type '' @ quoted t))"
    by (simp add: check_type_def checkers_get_def py_str_def)
  from type_check_failure [OF assms(1) this assms(2)] show ?thesis
    by simp
qed

theorem unknown_type_stops_the_node_witness:
  "map_of [(''type'', PStr ''str''), (''enum'', PInt 7)] ''type'' = Some (PStr ''str'')
   \<and> ''str'' \<noteq> []
   \<and> ''str'' \<notin> {''string'', ''number'', ''integer'', ''boolean'', ''array'', ''object'', ''null''}
   \<and> validate_schema nan_host (PStr ''x'') (PDict [(''type'', PStr ''str''), (''enum'', PInt 7)]) ''$''
       = Inr [''$: Unknown schema type 'str'' @ [CHR 0x27]]"
  using unknown_type_stops_the_node [of "[(''type'', PStr ''str''), (''enum'', PInt 7)]"
      "''str''" nan_host "PStr ''x''" "''$''"]
  by (simp add: quoted_def)

section \<open>The enum check\<close>




section \<open>The order of the errors\<close>

text \<open>Each loop appends to the list it is given, in the order of the list it walks.\<close>

lemma required_loop_appends:
  "required_loop h d path keys acc = Inr r \<Longrightarrow>
   r = acc @ map (\<lambda>name. path @ '': missing required key '' @ quoted (py_str h name))
             (filter (\<lambda>name. key_in name d = Inr False) keys)"
proof (induction keys arbitrary: acc)
  case Nil
  then show ?case by simp
next
  case (Cons key keys)
  from Cons.prems obtain present where present: "key_in key d = Inr present"
    and rest: "required_loop h d path keys
                 (if \<not> present
                  then acc @ [path @ '': missing required key '' @ quoted (py_str h key)]
                  else acc) = Inr r"
    by (auto split: sum.splits)
  from Cons.IH [OF rest] present show ?case
    by (cases present) simp_all
qed

lemma unexpected_loop_appends:
  "unexpected_loop path keys acc = acc @ map (\<lambda>name. path @ '': unexpected key '' @ quoted name) keys"
  by (induction keys arbitrary: acc) auto

lemma properties_loop_appends:
  "properties_loop h d path props acc = Inr r \<Longrightarrow>
   r = acc @ concat (map (\<lambda>(name, subschema).
                   case map_of d name of
                     None \<Rightarrow> []
                   | Some v \<Rightarrow> errors_of (validate_schema h v subschema (path @ ''.'' @ name))) props)"
proof (induction props arbitrary: acc)
  case Nil
  then show ?case by simp
next
  case (Cons entry props)
  obtain key subschema where entry: "entry = (key, subschema)"
    by (cases entry)
  show ?case
  proof (cases "map_of d key")
    case None
    with Cons.prems entry have "properties_loop h d path props acc = Inr r"
      by simp
    from Cons.IH [OF this] None entry show ?thesis
      by simp
  next
    case (Some v)
    with Cons.prems entry obtain es
      where es: "validate_schema h v subschema (path @ ''.'' @ key) = Inr es"
        and rest: "properties_loop h d path props (acc @ es) = Inr r"
      by (auto split: sum.splits)
    from Cons.IH [OF rest] Some entry es show ?thesis
      by (simp add: errors_of_def)
  qed
qed

lemma items_loop_appends:
  "items_loop h item_schema path index xs acc = Inr r \<Longrightarrow>
   r = acc @ concat (map (\<lambda>(index, v).
                            errors_of (validate_schema h v item_schema
                                         (path @ ''['' @ nat_str index @ '']'')))
                       (enumerate index xs))"
proof (induction xs arbitrary: acc index)
  case Nil
  then show ?case by simp
next
  case (Cons x xs)
  from Cons.prems obtain es
    where es: "validate_schema h x item_schema (path @ ''['' @ nat_str index @ '']'') = Inr es"
      and rest: "items_loop h item_schema path (Suc index) xs (acc @ es) = Inr r"
    by (auto split: sum.splits)
  from Cons.IH [OF rest] es show ?case
    by (simp add: errors_of_def)
qed

lemma validate_object_spec:
  assumes "validate_object h d sch path = Inr r"
  shows "r = spec_required_errors h d sch path @ spec_property_errors h d sch path
             @ spec_unexpected_errors d sch path"
proof -
  from assms obtain keys where keys: "py_iter (dict_get sch ''required'' (PList [])) = Inr keys"
    by (auto simp: validate_object.simps Let_def split: sum.splits)
  from assms keys obtain r1 where r1: "required_loop h d path keys [] = Inr r1"
    by (auto simp: validate_object.simps Let_def split: sum.splits)
  from assms keys r1 obtain props where props: "dict_get sch ''properties'' (PDict []) = PDict props"
    by (auto simp: validate_object.simps Let_def split: pyval.splits)
  from assms keys r1 props obtain r2 where r2: "properties_loop h d path props r1 = Inr r2"
    by (auto simp: validate_object.simps Let_def split: sum.splits)
  from assms keys r1 props r2 have r: "r =
     (if dict_get sch ''additionalProperties'' (PBool True) = PBool False
      then unexpected_loop path (sort (filter (\<lambda>k. k \<notin> set (dict_keys props)) (dict_keys d))) r2
      else r2)"
    by (auto simp: validate_object.simps Let_def)
  from required_loop_appends [OF r1] keys
  have "r1 = spec_required_errors h d sch path"
    by (simp add: spec_required_errors_def)
  moreover from properties_loop_appends [OF r2] props
  have "r2 = r1 @ spec_property_errors h d sch path"
    by (simp add: spec_property_errors_def)
  ultimately show ?thesis
    using r props by (simp add: spec_unexpected_errors_def unexpected_loop_appends)
qed

lemma validate_schema_step:
  assumes ok: "(if py_truthy h (dict_get sch ''type'' PNone)
        then check_type h data (dict_get sch ''type'' PNone) else Inr None) = Inr None"
    and member: "(if dict_get sch ''enum'' PNone \<noteq> PNone
              then py_in h data (dict_get sch ''enum'' PNone) else Inr True) = Inr member"
    and enum: "enum_errors = (if \<not> member
       then [path @ '': value '' @ py_repr h data @ '' is not in allowed set ''
             @ py_repr h (dict_get sch ''enum'' PNone)]
       else [])"
  shows "validate_schema h data (PDict sch) path =
    (case data of
       PDict d \<Rightarrow>
         if dict_get sch ''type'' PNone = PStr ''object'' then
           (case validate_object h d sch path of
              Inl e \<Rightarrow> Inl e
            | Inr es \<Rightarrow> Inr (enum_errors @ es))
         else Inr enum_errors
     | PList xs \<Rightarrow>
         if dict_get sch ''type'' PNone = PStr ''array'' then
           if py_truthy h (dict_get sch ''items'' PNone)
           then items_loop h (dict_get sch ''items'' PNone) path 0 xs enum_errors
           else Inr enum_errors
         else Inr enum_errors
     | _ \<Rightarrow> Inr enum_errors)"
  by (simp add: validate_schema.simps Let_def ok member enum
        split del: if_split cong del: pyval.case_cong_weak sum.case_cong_weak if_weak_cong)

lemma validate_schema_spec:
  assumes "validate_schema h data (PDict sch) path = Inr errs"
  shows "errs = spec_errors h data sch path"
proof (cases "spec_type_failure h data sch")
  case (Some m)
  with assms show ?thesis
    by (auto simp: validate_schema.simps Let_def spec_errors_def spec_type_failure_def
        split: sum.splits option.splits if_splits)
next
  case None
  with assms have ok: "(if py_truthy h (dict_get sch ''type'' PNone)
        then check_type h data (dict_get sch ''type'' PNone) else Inr None) = Inr None"
    by (auto simp: validate_schema.simps Let_def spec_type_failure_def
        split: sum.splits option.splits if_splits)
  with assms obtain member where
    member: "(if dict_get sch ''enum'' PNone \<noteq> PNone
              then py_in h data (dict_get sch ''enum'' PNone) else Inr True) = Inr member"
    by (auto simp: validate_schema.simps Let_def split: sum.splits)
  have "spec_enum_errors h data sch path = (if \<not> member
       then [path @ '': value '' @ py_repr h data @ '' is not in allowed set ''
             @ py_repr h (dict_get sch ''enum'' PNone)]
       else [])"
    using member by (auto simp: spec_enum_errors_def Let_def split: if_splits)
  note step = validate_schema_step [OF ok member this]
  show ?thesis
  proof (cases data)
    case (PDict d)
    show ?thesis
    proof (cases "dict_get sch ''type'' PNone = PStr ''object''")
      case True
      with assms step PDict obtain es where es: "validate_object h d sch path = Inr es"
        and errs: "errs = spec_enum_errors h data sch path @ es"
        by (auto split: sum.splits)
      from validate_object_spec [OF es] errs None True PDict show ?thesis
        by (simp add: spec_errors_def)
    next
      case False
      with assms step PDict None show ?thesis
        by (simp add: spec_errors_def)
    qed
  next
    case (PList xs)
    show ?thesis
    proof (cases "dict_get sch ''type'' PNone = PStr ''array''
                  \<and> py_truthy h (dict_get sch ''items'' PNone)")
      case True
      with assms step PList have
        "items_loop h (dict_get sch ''items'' PNone) path 0 xs
           (spec_enum_errors h data sch path) = Inr errs"
        by simp
      from items_loop_appends [OF this] None True PList show ?thesis
        by (simp add: spec_errors_def spec_item_errors_def)
    next
      case False
      with assms step PList None show ?thesis
        by (auto simp: spec_errors_def spec_item_errors_def split: if_splits)
    qed
  qed (use assms step None in \<open>simp_all add: spec_errors_def\<close>)
qed

text \<open>
  C4. The list a node returns is, in this order: the type-check failure alone when there is
  one; else the enum failure, then (for an object under \<open>type: "object"\<close>) the missing
  required keys in the order of \<open>required\<close>, the errors of the properties the value has in
  the order of \<open>properties\<close>, the unexpected keys in sorted order, and (for an array under
  \<open>type: "array"\<close>) the errors of the elements in the order of their indices.
\<close>

theorem errors_in_documented_order:
  assumes "validate_schema h data (PDict sch) path = Inr errs"
  shows "errs =
    (case spec_type_failure h data sch of
       Some m \<Rightarrow> [path @ '': '' @ m]
     | None \<Rightarrow>
         spec_enum_errors h data sch path
         @ (case data of
              PDict d \<Rightarrow>
                if dict_get sch ''type'' PNone = PStr ''object''
                then spec_required_errors h d sch path
                     @ spec_property_errors h d sch path
                     @ spec_unexpected_errors d sch path
                else []
            | PList xs \<Rightarrow>
                if dict_get sch ''type'' PNone = PStr ''array''
                then spec_item_errors h xs sch path
                else []
            | _ \<Rightarrow> []))"
  using validate_schema_spec [OF assms] by (simp only: spec_errors_def)

theorem errors_in_documented_order_witness:
  "validate_schema nan_host demo_data (PDict demo_schema) ''$'' =
     Inr [''$: value {'z': 1, 'a': 'x', 'b': 2} is not in allowed set [1]'',
          ''$: missing required key '' @ quoted ''name'',
          ''$: missing required key '' @ quoted ''port'',
          ''$.a: Expected type 'integer' but received value '' @ quoted ''x'',
          ''$: unexpected key '' @ quoted ''b'',
          ''$: unexpected key '' @ quoted ''z'']
   \<and> [''$: value {'z': 1, 'a': 'x', 'b': 2} is not in allowed set [1]'',
      ''$: missing required key '' @ quoted ''name'',
      ''$: missing required key '' @ quoted ''port'',
      ''$.a: Expected type 'integer' but received value '' @ quoted ''x'',
      ''$: unexpected key '' @ quoted ''b'',
      ''$: unexpected key '' @ quoted ''z''] =
    (case spec_type_failure nan_host demo_data demo_schema of
       Some m \<Rightarrow> [''$'' @ '': '' @ m]
     | None \<Rightarrow>
         spec_enum_errors nan_host demo_data demo_schema ''$''
         @ (case demo_data of
              PDict d \<Rightarrow>
                if dict_get demo_schema ''type'' PNone = PStr ''object''
                then spec_required_errors nan_host d demo_schema ''$''
                     @ spec_property_errors nan_host d demo_schema ''$''
                     @ spec_unexpected_errors d demo_schema ''$''
                else []
            | PList xs \<Rightarrow>
                if dict_get demo_schema ''type'' PNone = PStr ''array''
                then spec_item_errors nan_host xs demo_schema ''$''
                else []
            | _ \<Rightarrow> []))"
proof -
  have run: "validate_schema nan_host demo_data (PDict demo_schema) ''$'' =
     Inr [''$: value {'z': 1, 'a': 'x', 'b': 2} is not in allowed set [1]'',
          ''$: missing required key '' @ quoted ''name'',
          ''$: missing required key '' @ quoted ''port'',
          ''$.a: Expected type 'integer' but received value '' @ quoted ''x'',
          ''$: unexpected key '' @ quoted ''b'',
          ''$: unexpected key '' @ quoted ''z'']"
    by (simp add: demo_data_def demo_schema_def nan_host_def run_simps)
  from run errors_in_documented_order [OF run] show ?thesis
    by (rule conjI)
qed

section \<open>The paths of the errors\<close>












section \<open>The facade\<close>

text \<open>Where the file was decoded, the errors of the result are those of the validator run
  at the root \<open>$\<close>.\<close>

lemma validate_runs_at_root:
  assumes "path_exists fs (path_str path)"
    and "lower (path_suffix path) \<in> SUPPORTED_FORMATS"
    and "load_config dec fs path = Inr data"
    and "py_truthy h schema"
  shows "validate h dec fs strict path schema =
    (case validate_schema h data schema ''$'' of
       Inl e \<Rightarrow> Inl e
     | Inr schema_errors \<Rightarrow>
         Inr \<lparr>valid = (schema_errors = []), errors = schema_errors, warnings = []\<rparr>)"
  using assms by (simp add: validate_def split: sum.splits)

text \<open>A failure of \<open>_load_config\<close> of the classes \<open>OSError\<close> and \<open>ValueError\<close> becomes the
  one error \<open>Failed to load config: <cause>\<close>.\<close>

lemma load_failure_is_reported:
  assumes "path_exists fs (path_str path)"
    and "lower (path_suffix path) \<in> SUPPORTED_FORMATS"
    and "load_config dec fs path = Inl (OSError m) \<or> load_config dec fs path = Inl (ValueError m)"
  shows "validate h dec fs strict path schema =
    Inr \<lparr>valid = False, errors = [''Failed to load config: '' @ m], warnings = []\<rparr>"
  using assms by (auto simp: validate_def)

text \<open>
  C1 fails on the code for INI files. \<open>except (OSError, ValueError)\<close> does not catch
  \<open>configparser.Error\<close>: whenever \<open>ConfigParser.read_file\<close> raises it on the bytes of an
  existing \<open>.ini\<close> file, \<open>validate\<close> raises it too and returns no result.
\<close>

theorem ini_syntax_error_escapes:
  assumes "path_exists fs (path_str path)"
    and "lower (path_suffix path) = ''.ini''"
    and "open_file fs (path_str path) = Inr bytes"
    and "ini_read_file dec bytes = Inl (ConfigParserError m)"
  shows "validate h dec fs strict path schema = Inl (ConfigParserError m)"
  using assms by (simp add: validate_def load_config_def SUPPORTED_FORMATS_def)

theorem ini_syntax_error_escapes_witness:
  "path_exists demo_fs (path_str demo_ini)
   \<and> lower (path_suffix demo_ini) = ''.ini''
   \<and> open_file demo_fs (path_str demo_ini) = Inr ''key = value''
   \<and> ini_read_file demo_decoders ''key = value''
       = Inl (ConfigParserError ''File contains no section headers.'')
   \<and> validate nan_host demo_decoders demo_fs False demo_ini PNone
       = Inl (ConfigParserError ''File contains no section headers.'')"
  using ini_syntax_error_escapes [of demo_fs demo_ini "''key = value''" demo_decoders
          "''File contains no section headers.''" nan_host False PNone]
  by (simp add: demo_fs_def demo_decoders_def demo_ini_def lower_def lower_char_def)



text \<open>
  C2. Every result that \<open>validate\<close> returns has \<open>valid\<close> exactly when its list of errors is
  empty; the warnings do not enter.
\<close>

theorem valid_iff_no_errors:
  assumes "validate h dec fs strict path schema = Inr r"
  shows "valid r = (errors r = [])"
  using assms
  by (auto simp: validate_def Let_def split: if_splits sum.splits exc.splits)

theorem valid_iff_no_errors_witness:
  "validate nan_host demo_decoders demo_fs False demo_json
       (PDict [(''type'', PStr ''object''), (''required'', PList [PStr ''name''])])
     = Inr \<lparr>valid = False, errors = [''$: missing required key '' @ quoted ''name''],
            warnings = []\<rparr>
   \<and> valid \<lparr>valid = False, errors = [''$: missing required key '' @ quoted ''name''],
            warnings = []\<rparr>
     = (errors \<lparr>valid = False, errors = [''$: missing required key '' @ quoted ''name''],
            warnings = []\<rparr> = [])
   \<and> validate nan_host demo_decoders demo_fs False demo_absent PNone
     = Inr \<lparr>valid = True, errors = [],
            warnings = [''Config file 'absent.json' does not exist.'']\<rparr>"
proof -
  have run: "validate nan_host demo_decoders demo_fs False demo_json
       (PDict [(''type'', PStr ''object''), (''required'', PList [PStr ''name''])])
     = Inr \<lparr>valid = False, errors = [''$: missing required key '' @ quoted ''name''],
            warnings = []\<rparr>"
    by (simp add: facade_simps run_simps)
  have absent: "validate nan_host demo_decoders demo_fs False demo_absent PNone
     = Inr \<lparr>valid = True, errors = [],
            warnings = [''Config file 'absent.json' does not exist.'']\<rparr>"
    by (simp add: facade_simps quoted_def)
  from run valid_iff_no_errors [OF run] absent show ?thesis
    by (intro conjI)
qed



end
